theory Spec2Isabelle
  imports Main "HOL-Library.Word" "HOL-Library.Sublist"
begin

section \<open>JavaScript strings\<close>

text \<open>
  A JavaScript string is a sequence of 16-bit UTF-16 code units. The regular expression
  of \<open>convertDataUrlToGeminiPart\<close> has no \<open>u\<close> flag and \<open>trim\<close> removes code
  points of the basic plane only, so both work on code units. The literals of the
  source are ASCII; \<open>js\<close> reads one as code units.
\<close>

type_synonym code_unit = "16 word"

type_synonym jsstring = "code_unit list"

definition js :: "string \<Rightarrow> jsstring" where
  "js s = map (\<lambda>c. word_of_nat (of_char c)) s"

text \<open>
  A value of type \<open>string | undefined\<close> is truthy when it is a non-empty string:
  \<open>!v\<close> holds for \<open>undefined\<close> and for \<open>''\<close>.
\<close>

definition truthy :: "jsstring option \<Rightarrow> bool" where
  "truthy v = (case v of None \<Rightarrow> False | Some s \<Rightarrow> s \<noteq> [])"

text \<open>The line terminators of ECMAScript: LF, CR, LS and PS. The dot of a regular
  expression matches every code unit but these.\<close>

definition isLineTerminator :: "code_unit \<Rightarrow> bool" where
  "isLineTerminator c = (c = 0x000A \<or> c = 0x000D \<or> c = 0x2028 \<or> c = 0x2029)"

text \<open>The white space \<open>String.prototype.trim\<close> strips: the WhiteSpace code points
  (TAB, VT, FF, SP, NBSP, ZWNBSP and the space separators of Unicode) and the line
  terminators.\<close>

definition isWhiteSpace :: "code_unit \<Rightarrow> bool" where
  "isWhiteSpace c =
     (c = 0x0009 \<or> c = 0x000B \<or> c = 0x000C \<or> c = 0x0020 \<or> c = 0x00A0 \<or>
      c = 0x1680 \<or> (0x2000 \<le> c \<and> c \<le> 0x200A) \<or> c = 0x202F \<or> c = 0x205F \<or>
      c = 0x3000 \<or> c = 0xFEFF \<or> isLineTerminator c)"

definition trim :: "jsstring \<Rightarrow> jsstring" where
  "trim s = rev (dropWhile isWhiteSpace (rev (dropWhile isWhiteSpace s)))"

text \<open>\<open>s.split(sep)\<close> for a separator of one code unit: the pieces between the
  separators, in order; a string without the separator is its own single piece, and
  the result is never empty (so the first branch of the \<open>case\<close> below is never
  taken).\<close>

fun js_split :: "code_unit \<Rightarrow> jsstring \<Rightarrow> jsstring list" where
  "js_split sep [] = [[]]"
| "js_split sep (c # cs) =
     (if c = sep then [] # js_split sep cs
      else (case js_split sep cs of
              [] \<Rightarrow> [[c]]
            | piece # pieces \<Rightarrow> (c # piece) # pieces))"

text \<open>\<open>xs[i]\<close> on a JavaScript array: \<open>undefined\<close> out of range.\<close>

definition js_index :: "'a list \<Rightarrow> nat \<Rightarrow> 'a option" where
  "js_index xs i = (if i < length xs then Some (xs ! i) else None)"

text \<open>\<open>s.startsWith(p)\<close>.\<close>

definition startsWith :: "jsstring \<Rightarrow> jsstring \<Rightarrow> bool" where
  "startsWith s p = (take (length p) s = p)"

section \<open>The regular expression \<open>/:(.*?);/\<close>\<close>

text \<open>
  \<open>lazyDotsThenSemicolon cs\<close> matches \<open>(.*?);\<close> at the start of \<open>cs\<close> and gives the
  captured group: the lazy star takes as few code units as it can, so the match ends at
  the first semicolon, and it fails when a line terminator (which the dot does not
  match) or the end of the string comes first.
\<close>

fun lazyDotsThenSemicolon :: "jsstring \<Rightarrow> jsstring option" where
  "lazyDotsThenSemicolon [] = None"
| "lazyDotsThenSemicolon (c # cs) =
     (if c = 0x003B then Some []
      else if isLineTerminator c then None
      else map_option ((#) c) (lazyDotsThenSemicolon cs))"

text \<open>
  \<open>s.match(/:(.*?);/)?.[1]\<close>: the match is tried at each position from the left; the
  first colon from which \<open>(.*?);\<close> matches gives the group, and no match gives
  \<open>undefined\<close>.
\<close>

fun matchColonGroup :: "jsstring \<Rightarrow> jsstring option" where
  "matchColonGroup [] = None"
| "matchColonGroup (c # cs) =
     (if c = 0x003A then
        (case lazyDotsThenSemicolon cs of
           Some g \<Rightarrow> Some g
         | None \<Rightarrow> matchColonGroup cs)
      else matchColonGroup cs)"

section \<open>The generation client\<close>

subsection \<open>Data\<close>

text \<open>The inline data of a request part, \<open>{ data, mimeType }\<close>.\<close>

record blob =
  data :: jsstring
  mimeType :: jsstring

text \<open>A part of the request: \<open>{ inlineData: ... }\<close> or \<open>{ text: ... }\<close>.\<close>

datatype part = InlineDataPart blob | TextPart jsstring

datatype modality = IMAGE | TEXT

record request =
  model :: jsstring
  contents_parts :: "part list"
  config_responseModalities :: "modality list"

text \<open>
  The response of the SDK, as far as the code reads it: every field is optional.
  \<open>response_text\<close> is the SDK's top-level \<open>text\<close> accessor.
\<close>

record response_blob =
  blob_data :: "jsstring option"
  blob_mimeType :: "jsstring option"

record response_part =
  inlineData :: "response_blob option"
  part_text :: "jsstring option"

record content =
  parts :: "response_part list option"

record candidate =
  candidate_content :: "content option"

record response =
  candidates :: "candidate list option"
  response_text :: "jsstring option"

text \<open>What a \<open>throw\<close> carries: an \<open>Error\<close> with its message, or any other value.\<close>

datatype thrown = JsError jsstring | OtherValue

text \<open>The three ways the awaited call of the SDK can go.\<close>

datatype reply = ResolvesWith response | RejectsWith thrown | NeverSettles

record client =
  apiKey :: jsstring

record File =
  file_name :: jsstring
  file_type :: jsstring
  file_bytes :: "8 word list"

record ImageFile =
  file_of :: File
  base64Url :: jsstring

subsection \<open>Module initialisation\<close>

definition API_KEY_unset :: jsstring where
  "API_KEY_unset = js ''API_KEY environment variable not set''"

text \<open>
  The top level of the module: \<open>process.env\<close> is a map from names to strings. A missing
  or empty \<open>API_KEY\<close> throws; otherwise the client \<open>ai\<close> is built from the key.
\<close>

definition initModule :: "(jsstring \<rightharpoonup> jsstring) \<Rightarrow> thrown + client" where
  "initModule env =
     (let API_KEY = env (js ''API_KEY'') in
      if \<not> truthy API_KEY then Inl (JsError API_KEY_unset)
      else Inr \<lparr>apiKey = the API_KEY\<rparr>)"

subsection \<open>\<open>convertDataUrlToGeminiPart\<close>\<close>

definition Invalid_data_URL :: jsstring where
  "Invalid_data_URL = js ''Invalid data URL''"

definition convertDataUrlToGeminiPart :: "jsstring \<Rightarrow> thrown + part" where
  "convertDataUrlToGeminiPart dataUrl =
     (let parts = js_split 0x002C dataUrl;
          mimeType = matchColonGroup (hd parts);
          base64Data = js_index parts 1
      in if \<not> truthy mimeType \<or> \<not> truthy base64Data then Inl (JsError Invalid_data_URL)
         else Inr (InlineDataPart \<lparr>data = the base64Data, mimeType = the mimeType\<rparr>))"

text \<open>The two values the function tests, as functions of the data URL: the group the
  regular expression captures in the piece before the first comma, and the piece after
  the first comma.\<close>

definition dataUrlMimeType :: "jsstring \<Rightarrow> jsstring option" where
  "dataUrlMimeType dataUrl = matchColonGroup (hd (js_split 0x002C dataUrl))"

definition dataUrlPayload :: "jsstring \<Rightarrow> jsstring option" where
  "dataUrlPayload dataUrl = js_index (js_split 0x002C dataUrl) 1"

text \<open>A data URL is malformed when one of the two values is missing or empty; a data
  URL with no comma has no second piece at all.\<close>

definition malformedDataUrl :: "jsstring \<Rightarrow> bool" where
  "malformedDataUrl dataUrl =
     (0x002C \<notin> set dataUrl \<or> \<not> truthy (dataUrlMimeType dataUrl) \<or>
      \<not> truthy (dataUrlPayload dataUrl))"

subsection \<open>\<open>generateProductPlacementImage\<close>\<close>

definition instruction :: jsstring where
  "instruction = js (''Analyze the first image (the character) and the second image (the product). '' @
     ''Generate a new image where the character is naturally using or interacting with the product. '' @
     ''The final output image MUST maintain the exact same aspect ratio and dimensions as the first (character) image. '' @
     ''The art style should also match the character image.'')"

definition buildRequest :: "part \<Rightarrow> part \<Rightarrow> request" where
  "buildRequest characterPart productPart =
     (let textPart = TextPart instruction
      in \<lparr>model = js ''gemini-2.5-flash-image-preview'',
          contents_parts = [characterPart, productPart, textPart],
          config_responseModalities = [IMAGE, TEXT]\<rparr>)"

text \<open>\<open>response.candidates?.[0]?.content?.parts || []\<close>: an absent list of candidates,
  an empty one, absent content and absent parts all give the empty list.\<close>

definition responseParts :: "response \<Rightarrow> response_part list" where
  "responseParts r =
     (case candidates r of
        None \<Rightarrow> []
      | Some cands \<Rightarrow>
          (case js_index cands 0 of
             None \<Rightarrow> []
           | Some cand \<Rightarrow>
               (case candidate_content cand of
                  None \<Rightarrow> []
                | Some c \<Rightarrow> (case parts c of None \<Rightarrow> [] | Some ps \<Rightarrow> ps))))"

text \<open>\<open>part.inlineData?.data\<close>.\<close>

definition inlineDataOf :: "response_part \<Rightarrow> jsstring option" where
  "inlineDataOf p = (case inlineData p of None \<Rightarrow> None | Some b \<Rightarrow> blob_data b)"

text \<open>The loop over the parts: it returns the data of the first part whose
  \<open>inlineData?.data\<close> is truthy, and falls through when there is none.\<close>

fun scanParts :: "response_part list \<Rightarrow> jsstring option" where
  "scanParts [] = None"
| "scanParts (p # ps) =
     (if truthy (inlineDataOf p) then inlineDataOf p else scanParts ps)"

text \<open>A part of the response carries inline image data when its
  \<open>inlineData?.data\<close> is truthy: the test of the loop.\<close>

definition carriesInlineImage :: "response_part \<Rightarrow> bool" where
  "carriesInlineImage p = truthy (inlineDataOf p)"

text \<open>How the body of the \<open>try\<close> block ends: it returns, it throws, or it stays
  suspended at the \<open>await\<close>.\<close>

datatype completion = Returns "jsstring option" | Throws thrown | Suspended

definition afterResponse :: "response \<Rightarrow> completion" where
  "afterResponse r =
     (case scanParts (responseParts r) of
        Some d \<Rightarrow> Returns (Some d)
      | None \<Rightarrow>
          (let textResponse = map_option trim (response_text r)
           in if truthy textResponse
              then Throws (JsError (js ''Model response: '' @ the textResponse))
              else Returns None))"

text \<open>
  The body of the \<open>try\<close> block, with the requests it has sent. The call of the SDK,
  \<open>ai.models.generateContent\<close>, is the parameter \<open>generateContent\<close>: it is outside the
  repository, and the block is modelled for each way it can answer.
\<close>

definition tryBlock ::
  "(client \<Rightarrow> request \<Rightarrow> reply) \<Rightarrow> client \<Rightarrow> ImageFile \<Rightarrow> ImageFile \<Rightarrow> request list \<times> completion"
where
  "tryBlock generateContent ai characterImage productImage =
     (case convertDataUrlToGeminiPart (base64Url characterImage) of
        Inl e \<Rightarrow> ([], Throws e)
      | Inr characterPart \<Rightarrow>
          (case convertDataUrlToGeminiPart (base64Url productImage) of
             Inl e \<Rightarrow> ([], Throws e)
           | Inr productPart \<Rightarrow>
               (let req = buildRequest characterPart productPart
                in (case generateContent ai req of
                      NeverSettles \<Rightarrow> ([req], Suspended)
                    | RejectsWith e \<Rightarrow> ([req], Throws e)
                    | ResolvesWith r \<Rightarrow> ([req], afterResponse r)))))"

text \<open>The \<open>catch\<close> clause: what it throws for the value it caught.\<close>

definition catchClause :: "thrown \<Rightarrow> thrown" where
  "catchClause error =
     (case error of
        JsError message \<Rightarrow> JsError (js ''Failed to generate image: '' @ message)
      | OtherValue \<Rightarrow> JsError (js ''An unknown error occurred during image generation.''))"

text \<open>The state of the promise the function returns.\<close>

datatype outcome = Fulfilled "jsstring option" | Rejected thrown | Pending

text \<open>A run of the function: the promise's outcome, the requests sent to the SDK in
  order, and what \<open>console.error\<close> was given.\<close>

record run =
  outcome :: outcome
  requests :: "request list"
  console_error :: "thrown list"

definition generateProductPlacementImage ::
  "(client \<Rightarrow> request \<Rightarrow> reply) \<Rightarrow> client \<Rightarrow> ImageFile \<Rightarrow> ImageFile \<Rightarrow> run"
where
  "generateProductPlacementImage generateContent ai characterImage productImage =
     (case tryBlock generateContent ai characterImage productImage of
        (sent, Returns v) \<Rightarrow> \<lparr>outcome = Fulfilled v, requests = sent, console_error = []\<rparr>
      | (sent, Throws error) \<Rightarrow>
          \<lparr>outcome = Rejected (catchClause error), requests = sent, console_error = [error]\<rparr>
      | (sent, Suspended) \<Rightarrow> \<lparr>outcome = Pending, requests = sent, console_error = []\<rparr>)"

text \<open>
  The module as a whole: evaluating it throws when the key is missing, and only
  otherwise does it export the function, closed over the client \<open>ai\<close>.
\<close>

definition geminiService ::
  "(jsstring \<rightharpoonup> jsstring) \<Rightarrow> (client \<Rightarrow> request \<Rightarrow> reply) \<Rightarrow>
     thrown + (ImageFile \<Rightarrow> ImageFile \<Rightarrow> run)"
where
  "geminiService env generateContent =
     (case initModule env of
        Inl e \<Rightarrow> Inl e
      | Inr ai \<Rightarrow> Inr (generateProductPlacementImage generateContent ai))"

section \<open>The uploader\<close>

text \<open>
  The state of one \<open>ImageUploader\<close>: its preview (the \<open>useState\<close> cell), the file
  input its ref points to (\<open>fileInputRef.current\<close>, absent while unmounted) with the
  input's \<open>value\<close>, the files whose \<open>FileReader\<close> has been started and has not ended,
  and the calls of the owner's \<open>onImageUpload\<close> so far, in order.
\<close>

record input_element =
  input_value :: jsstring

record uploader =
  imagePreview :: "jsstring option"
  fileInputRef :: "input_element option"
  reading :: "File list"
  delivered :: "ImageFile option list"

text \<open>A change event of the input: \<open>event.target.files\<close> is a list of files or
  \<open>null\<close>.\<close>

record change_event =
  target_files :: "File list option"

text \<open>\<open>event.target.files?.[0]\<close>.\<close>

definition selectedFile :: "change_event \<Rightarrow> File option" where
  "selectedFile event =
     (case target_files event of None \<Rightarrow> None | Some fs \<Rightarrow> js_index fs 0)"

text \<open>
  \<open>handleFileChange\<close>: an image-typed file starts a reader and changes nothing else
  yet; anything else clears the preview and tells the owner \<open>null\<close>. The handler has no
  \<open>throw\<close> and calls nothing that throws, so it is a total function of the state.
\<close>

definition handleFileChange :: "uploader \<Rightarrow> change_event \<Rightarrow> uploader" where
  "handleFileChange u event =
     (let chosen = selectedFile event
      in if chosen \<noteq> None \<and> startsWith (file_type (the chosen)) (js ''image/'')
         then u\<lparr>reading := reading u @ [the chosen]\<rparr>
         else u\<lparr>imagePreview := None, delivered := delivered u @ [None]\<rparr>)"

text \<open>
  The reader's \<open>onloadend\<close> callback for the file \<open>f\<close>, with \<open>reader.result\<close> the
  string \<open>result\<close> (the source casts it to \<open>string\<close> and names it
  \<open>base64Url\<close>): the preview and the value handed to the owner are the same string.
\<close>

definition onloadend :: "uploader \<Rightarrow> File \<Rightarrow> jsstring \<Rightarrow> uploader" where
  "onloadend u f result =
     u\<lparr>imagePreview := Some result,
       delivered := delivered u @ [Some \<lparr>file_of = f, base64Url = result\<rparr>],
       reading := remove1 f (reading u)\<rparr>"

text \<open>The click on the remove button, with the two flags the handler sets on it.\<close>

record mouse_event =
  propagationStopped :: bool
  defaultPrevented :: bool

definition handleClear :: "uploader \<Rightarrow> mouse_event \<Rightarrow> uploader \<times> mouse_event" where
  "handleClear u e =
     (u\<lparr>imagePreview := None,
        delivered := delivered u @ [None],
        fileInputRef :=
          (case fileInputRef u of
             None \<Rightarrow> None
           | Some el \<Rightarrow> Some (el\<lparr>input_value := []\<rparr>))\<rparr>,
      e\<lparr>propagationStopped := True, defaultPrevented := True\<rparr>)"

section \<open>The data URL of a file\<close>

text \<open>
  Modelled from the spec: the encoding the uploader hands on is produced by the
  browser's \<open>FileReader.readAsDataURL\<close>, which is not code of the repository. The spec
  describes its result as the self-describing string
  \<open>data:<mimeType>;base64,<payload>\<close>, the payload being the base64 text of the file's
  bytes. Base64 is the standard alphabet \<open>A-Z a-z 0-9 + /\<close> with \<open>=\<close> padding: three
  bytes make four characters of six bits each.
\<close>

definition b64code :: "nat \<Rightarrow> nat" where
  "b64code n =
     (if n < 26 then 65 + n
      else if n < 52 then 71 + n
      else if n < 62 then n - 4
      else if n = 62 then 43
      else 47)"

definition b64char :: "nat \<Rightarrow> code_unit" where
  "b64char n = word_of_nat (b64code n)"

fun base64 :: "8 word list \<Rightarrow> jsstring" where
  "base64 (a # b # c # rest) =
     b64char (unat a div 4) #
     b64char (unat a mod 4 * 16 + unat b div 16) #
     b64char (unat b mod 16 * 4 + unat c div 64) #
     b64char (unat c mod 64) # base64 rest"
| "base64 [a, b] =
     [b64char (unat a div 4),
      b64char (unat a mod 4 * 16 + unat b div 16),
      b64char (unat b mod 16 * 4),
      0x003D]"
| "base64 [a] =
     [b64char (unat a div 4), b64char (unat a mod 4 * 16), 0x003D, 0x003D]"
| "base64 [] = []"

definition readAsDataURL :: "File \<Rightarrow> jsstring" where
  "readAsDataURL f = js ''data:'' @ file_type f @ js '';base64,'' @ base64 (file_bytes f)"

text \<open>
  Modelled from the spec: decoding a data URL, in the words of the round-trip
  property: strip the header \<open>data:<mimeType>;base64,\<close> and base64-decode the payload.
  The repository has no base64 decoder; this one accepts exactly the padded, canonical
  texts over the standard alphabet.
\<close>

definition sextet :: "code_unit \<Rightarrow> nat option" where
  "sextet c =
     (let n = unat c
      in if 65 \<le> n \<and> n \<le> 90 then Some (n - 65)
         else if 97 \<le> n \<and> n \<le> 122 then Some (n - 71)
         else if 48 \<le> n \<and> n \<le> 57 then Some (n + 4)
         else if n = 43 then Some 62
         else if n = 47 then Some 63
         else None)"

definition byte :: "nat \<Rightarrow> 8 word" where
  "byte n = word_of_nat n"

fun base64_decode :: "jsstring \<Rightarrow> 8 word list option" where
  "base64_decode [] = Some []"
| "base64_decode (c1 # c2 # c3 # c4 # rest) =
     (case (sextet c1, sextet c2) of
        (Some s1, Some s2) \<Rightarrow>
          (if rest = [] \<and> c3 = 0x003D \<and> c4 = 0x003D then
             (if s2 mod 16 = 0 then Some [byte (s1 * 4 + s2 div 16)] else None)
           else
             (case sextet c3 of
                None \<Rightarrow> None
              | Some s3 \<Rightarrow>
                  (if rest = [] \<and> c4 = 0x003D then
                     (if s3 mod 4 = 0
                      then Some [byte (s1 * 4 + s2 div 16),
                                 byte (s2 mod 16 * 16 + s3 div 4)]
                      else None)
                   else
                     (case sextet c4 of
                        None \<Rightarrow> None
                      | Some s4 \<Rightarrow>
                          map_option
                            (\<lambda>bytes. byte (s1 * 4 + s2 div 16) #
                                      byte (s2 mod 16 * 16 + s3 div 4) #
                                      byte (s3 mod 4 * 64 + s4) # bytes)
                            (base64_decode rest)))))
      | _ \<Rightarrow> None)"
| "base64_decode _ = None"

definition decodeDataUrl :: "jsstring \<Rightarrow> (jsstring \<times> 8 word list) option" where
  "decodeDataUrl url =
     (if startsWith url (js ''data:'') then
        (let rest = drop 5 url;
             mime = takeWhile (\<lambda>c. c \<noteq> 0x003B) rest;
             tail = dropWhile (\<lambda>c. c \<noteq> 0x003B) rest
         in if startsWith tail (js '';base64,'')
            then map_option (Pair mime) (base64_decode (drop 8 tail))
            else None)
      else None)"

text \<open>
  A declared type as a file picker reports it is a bare \<open>type/subtype\<close>: it has no
  parameters, so no semicolon, and no comma or line break.
\<close>

definition bareMimeType :: "jsstring \<Rightarrow> bool" where
  "bareMimeType t = list_all (\<lambda>c. c \<noteq> 0x003B \<and> c \<noteq> 0x002C \<and> \<not> isLineTerminator c) t"

section \<open>Example inputs\<close>

text \<open>Concrete inputs at which the theorems below are evaluated: two files with the
  first bytes of a PNG and of a JPEG, their data URLs, a data URL with no comma, and
  responses of the SDK built from their parts.\<close>

definition characterPng :: File where
  "characterPng =
     \<lparr>file_name = js ''character.png'', file_type = js ''image/png'',
      file_bytes = [0x89, 0x50, 0x4E, 0x47, 0x0D, 0x0A, 0x1A, 0x0A]\<rparr>"

definition productJpeg :: File where
  "productJpeg =
     \<lparr>file_name = js ''product.jpg'', file_type = js ''image/jpeg'',
      file_bytes = [0xFF, 0xD8, 0xFF, 0xE0]\<rparr>"

definition notesTxt :: File where
  "notesTxt =
     \<lparr>file_name = js ''notes.txt'', file_type = js ''text/plain'',
      file_bytes = [0x68, 0x69]\<rparr>"

definition characterUpload :: ImageFile where
  "characterUpload =
     \<lparr>file_of = characterPng, base64Url = js ''data:image/png;base64,iVBORw0KGgo=''\<rparr>"

definition productUpload :: ImageFile where
  "productUpload =
     \<lparr>file_of = productJpeg, base64Url = js ''data:image/jpeg;base64,/9j/4A==''\<rparr>"

definition commalessUpload :: ImageFile where
  "commalessUpload =
     \<lparr>file_of = characterPng, base64Url = js ''data:image/png;base64''\<rparr>"

definition someClient :: client where
  "someClient = \<lparr>apiKey = js ''secret''\<rparr>"

definition imagePart :: "jsstring \<Rightarrow> response_part" where
  "imagePart d =
     \<lparr>inlineData = Some \<lparr>blob_data = Some d, blob_mimeType = Some (js ''image/png'')\<rparr>,
      part_text = None\<rparr>"

definition textPart :: "jsstring \<Rightarrow> response_part" where
  "textPart t = \<lparr>inlineData = None, part_text = Some t\<rparr>"

definition responseOf :: "response_part list \<Rightarrow> jsstring option \<Rightarrow> response" where
  "responseOf ps t =
     \<lparr>candidates = Some [\<lparr>candidate_content = Some \<lparr>parts = Some ps\<rparr>\<rparr>],
      response_text = t\<rparr>"

definition mountedUploader :: uploader where
  "mountedUploader =
     \<lparr>imagePreview = Some (base64Url characterUpload),
      fileInputRef = Some \<lparr>input_value = js ''character.png''\<rparr>,
      reading = [],
      delivered = [Some characterUpload]\<rparr>"

section \<open>Strings and the data URL\<close>

lemma js_split_not_Nil: "js_split sep s \<noteq> []"
  by (induction s) (auto split: list.splits)

lemma hd_js_split: "hd (js_split sep s) = takeWhile (\<lambda>c. c \<noteq> sep) s"
  by (induction s) (auto split: list.splits simp: js_split_not_Nil)

lemma js_split_no_separator: "sep \<notin> set s \<Longrightarrow> js_split sep s = [s]"
  by (induction s) (auto split: list.splits)

lemma dataUrlPayload_no_comma: "0x002C \<notin> set dataUrl \<Longrightarrow> dataUrlPayload dataUrl = None"
  by (simp add: dataUrlPayload_def js_split_no_separator js_index_def)

lemma convertDataUrlToGeminiPart_cases:
  "convertDataUrlToGeminiPart dataUrl =
     (if truthy (dataUrlMimeType dataUrl) \<and> truthy (dataUrlPayload dataUrl)
      then Inr (InlineDataPart \<lparr>data = the (dataUrlPayload dataUrl),
                                mimeType = the (dataUrlMimeType dataUrl)\<rparr>)
      else Inl (JsError Invalid_data_URL))"
  by (auto simp: convertDataUrlToGeminiPart_def dataUrlMimeType_def dataUrlPayload_def Let_def)

lemma convert_malformed:
  "malformedDataUrl dataUrl \<Longrightarrow>
   convertDataUrlToGeminiPart dataUrl = Inl (JsError Invalid_data_URL)"
  by (auto simp: convertDataUrlToGeminiPart_cases malformedDataUrl_def
      dataUrlPayload_no_comma truthy_def)

lemma convert_Inl:
  "convertDataUrlToGeminiPart dataUrl = Inl e \<Longrightarrow>
   e = JsError Invalid_data_URL \<and> malformedDataUrl dataUrl"
  by (auto simp: convertDataUrlToGeminiPart_cases malformedDataUrl_def split: if_splits)

section \<open>Runs of \<open>generateProductPlacementImage\<close>\<close>

lemma generate_first_malformed:
  "convertDataUrlToGeminiPart (base64Url characterImage) = Inl e \<Longrightarrow>
   generateProductPlacementImage generateContent ai characterImage productImage =
     \<lparr>outcome = Rejected (catchClause e), requests = [], console_error = [e]\<rparr>"
  by (simp add: generateProductPlacementImage_def tryBlock_def)

lemma generate_second_malformed:
  "convertDataUrlToGeminiPart (base64Url characterImage) = Inr cp \<Longrightarrow>
   convertDataUrlToGeminiPart (base64Url productImage) = Inl e \<Longrightarrow>
   generateProductPlacementImage generateContent ai characterImage productImage =
     \<lparr>outcome = Rejected (catchClause e), requests = [], console_error = [e]\<rparr>"
  by (simp add: generateProductPlacementImage_def tryBlock_def)

lemma tryBlock_well_formed:
  "convertDataUrlToGeminiPart (base64Url characterImage) = Inr cp \<Longrightarrow>
   convertDataUrlToGeminiPart (base64Url productImage) = Inr pp \<Longrightarrow>
   tryBlock generateContent ai characterImage productImage =
     ([buildRequest cp pp],
      (case generateContent ai (buildRequest cp pp) of
         NeverSettles \<Rightarrow> Suspended
       | RejectsWith e \<Rightarrow> Throws e
       | ResolvesWith r \<Rightarrow> afterResponse r))"
  by (simp add: tryBlock_def Let_def split: reply.splits)

lemma generate_resolved:
  "convertDataUrlToGeminiPart (base64Url characterImage) = Inr cp \<Longrightarrow>
   convertDataUrlToGeminiPart (base64Url productImage) = Inr pp \<Longrightarrow>
   generateContent ai (buildRequest cp pp) = ResolvesWith r \<Longrightarrow>
   generateProductPlacementImage generateContent ai characterImage productImage =
     (case afterResponse r of
        Returns v \<Rightarrow> \<lparr>outcome = Fulfilled v, requests = [buildRequest cp pp], console_error = []\<rparr>
      | Throws error \<Rightarrow>
          \<lparr>outcome = Rejected (catchClause error), requests = [buildRequest cp pp],
           console_error = [error]\<rparr>
      | Suspended \<Rightarrow> \<lparr>outcome = Pending, requests = [buildRequest cp pp], console_error = []\<rparr>)"
  by (simp add: generateProductPlacementImage_def tryBlock_well_formed split: completion.splits)

lemma generate_remote_rejects:
  "convertDataUrlToGeminiPart (base64Url characterImage) = Inr cp \<Longrightarrow>
   convertDataUrlToGeminiPart (base64Url productImage) = Inr pp \<Longrightarrow>
   generateContent ai (buildRequest cp pp) = RejectsWith e \<Longrightarrow>
   generateProductPlacementImage generateContent ai characterImage productImage =
     \<lparr>outcome = Rejected (catchClause e), requests = [buildRequest cp pp], console_error = [e]\<rparr>"
  by (simp add: generateProductPlacementImage_def tryBlock_well_formed)

lemma scanParts_first:
  "\<forall>q \<in> set before. \<not> carriesInlineImage q \<Longrightarrow> carriesInlineImage p \<Longrightarrow>
   scanParts (before @ p # after) = inlineDataOf p"
  by (induction before) (auto simp: carriesInlineImage_def)

lemma scanParts_none:
  "\<forall>q \<in> set ps. \<not> carriesInlineImage q \<Longrightarrow> scanParts ps = None"
  by (induction ps) (auto simp: carriesInlineImage_def)

lemma carriesInlineImage_raw:
  "carriesInlineImage p \<longleftrightarrow>
     (\<exists>b d. inlineData p = Some b \<and> blob_data b = Some d \<and> d \<noteq> [])"
  by (auto simp: carriesInlineImage_def inlineDataOf_def truthy_def split: option.splits)

lemma afterResponse_not_Suspended: "afterResponse r \<noteq> Suspended"
  by (simp add: afterResponse_def Let_def split: option.splits)

lemma afterResponse_Throws:
  "afterResponse r = Throws e \<Longrightarrow>
   \<exists>t. response_text r = Some t \<and> trim t \<noteq> [] \<and> e = JsError (js ''Model response: '' @ trim t)"
  by (cases "response_text r")
    (auto simp: afterResponse_def Let_def truthy_def split: option.splits if_splits)

text \<open>The example data URLs, converted.\<close>

lemma convert_characterUpload:
  "convertDataUrlToGeminiPart (base64Url characterUpload) =
     Inr (InlineDataPart \<lparr>data = js ''iVBORw0KGgo='', mimeType = js ''image/png''\<rparr>)"
  by (simp add: characterUpload_def convertDataUrlToGeminiPart_def js_def js_index_def
      truthy_def isLineTerminator_def)

lemma convert_productUpload:
  "convertDataUrlToGeminiPart (base64Url productUpload) =
     Inr (InlineDataPart \<lparr>data = js ''/9j/4A=='', mimeType = js ''image/jpeg''\<rparr>)"
  by (simp add: productUpload_def convertDataUrlToGeminiPart_def js_def js_index_def
      truthy_def isLineTerminator_def)

lemma responseParts_responseOf: "responseParts (responseOf ps t) = ps"
  by (simp add: responseParts_def responseOf_def js_index_def)

section \<open>Base64 and the data URL of a file\<close>

lemma unat_b64char: "n < 64 \<Longrightarrow> unat (b64char n) = b64code n"
proof -
  assume "n < 64"
  then have "b64code n < 65536"
    unfolding b64code_def by (simp split: if_splits) arith
  then show ?thesis
    by (simp add: b64char_def unat_of_nat)
qed

lemma sextet_b64char: "n < 64 \<Longrightarrow> sextet (b64char n) = Some n"
  unfolding sextet_def Let_def b64code_def
  by (simp only: unat_b64char) (simp add: b64code_def, arith)

lemma sextet_pad: "sextet 0x003D = None"
  by (simp add: sextet_def)

lemma sextet_comma: "sextet 0x002C = None"
  by (simp add: sextet_def)

lemma b64char_not_pad: "n < 64 \<Longrightarrow> b64char n \<noteq> 0x003D"
  using sextet_b64char [of n] sextet_pad by auto

lemma b64char_not_comma: "n < 64 \<Longrightarrow> b64char n \<noteq> 0x002C"
  using sextet_b64char [of n] sextet_comma by auto

lemma byte_less: "unat (a :: 8 word) < 256"
  using unsigned_less [of a, where 'a = nat] by simp

lemma sextets_of_bytes:
  fixes x y z :: nat
  assumes "x < 256" "y < 256" "z < 256"
  shows "x div 4 < 64" "x mod 4 * 16 + y div 16 < 64" "y mod 16 * 4 + z div 64 < 64"
    "z mod 64 < 64" "x mod 4 * 16 < 64" "y mod 16 * 4 < 64"
  using assms by arith+

lemma bytes_of_sextets:
  fixes x y z :: nat
  assumes "y < 256" "z < 256"
  shows "x div 4 * 4 + (x mod 4 * 16 + y div 16) div 16 = x"
    "(x mod 4 * 16 + y div 16) mod 16 * 16 + (y mod 16 * 4 + z div 64) div 4 = y"
    "(y mod 16 * 4 + z div 64) mod 4 * 64 + z mod 64 = z"
  using assms by simp_all

lemma bytes_of_sextets_padded:
  fixes x y :: nat
  shows "x div 4 * 4 + (x mod 4 * 16) div 16 = x" "(x mod 4 * 16) mod 16 = 0"
    "y < 256 \<Longrightarrow> (x mod 4 * 16 + y div 16) mod 16 * 16 + (y mod 16 * 4) div 4 = y"
    "(y mod 16 * 4) mod 4 = 0"
  by simp_all

lemma byte_unat: "byte (unat a) = a"
  by (simp add: byte_def)

lemma sextet_Some_not_pad: "sextet c = Some s \<Longrightarrow> c \<noteq> 0x003D"
  using sextet_pad by auto

lemma base64_decode_group:
  assumes "sextet c1 = Some s1" "sextet c2 = Some s2" "sextet c3 = Some s3" "sextet c4 = Some s4"
  shows "base64_decode (c1 # c2 # c3 # c4 # rest) =
     map_option
       (\<lambda>bytes. byte (s1 * 4 + s2 div 16) # byte (s2 mod 16 * 16 + s3 div 4) #
                 byte (s3 mod 4 * 64 + s4) # bytes)
       (base64_decode rest)"
  using assms sextet_Some_not_pad [OF assms(3)] sextet_Some_not_pad [OF assms(4)]
  by simp

lemma base64_decode_two_bytes:
  assumes "sextet c1 = Some s1" "sextet c2 = Some s2" "sextet c3 = Some s3" "s3 mod 4 = 0"
  shows "base64_decode [c1, c2, c3, 0x003D] =
     Some [byte (s1 * 4 + s2 div 16), byte (s2 mod 16 * 16 + s3 div 4)]"
  using assms sextet_Some_not_pad [OF assms(3)] by simp

lemma base64_decode_one_byte:
  assumes "sextet c1 = Some s1" "sextet c2 = Some s2" "s2 mod 16 = 0"
  shows "base64_decode [c1, c2, 0x003D, 0x003D] = Some [byte (s1 * 4 + s2 div 16)]"
  using assms by simp

lemma base64_decode_base64: "base64_decode (base64 bs) = Some bs"
proof (induction bs rule: base64.induct)
  case (1 a b c rest)
  let ?x = "unat a" and ?y = "unat b" and ?z = "unat c"
  note lt = byte_less [of a] byte_less [of b] byte_less [of c]
  note s = sextets_of_bytes [OF lt]
  have "base64_decode (base64 (a # b # c # rest)) =
      map_option
       (\<lambda>bytes. byte (?x div 4 * 4 + (?x mod 4 * 16 + ?y div 16) div 16) #
                 byte ((?x mod 4 * 16 + ?y div 16) mod 16 * 16 + (?y mod 16 * 4 + ?z div 64) div 4) #
                 byte ((?y mod 16 * 4 + ?z div 64) mod 4 * 64 + ?z mod 64) # bytes)
       (base64_decode (base64 rest))"
    unfolding base64.simps
    by (rule base64_decode_group) (rule sextet_b64char, rule s)+
  also have "\<dots> = map_option (\<lambda>bytes. a # b # c # bytes) (base64_decode (base64 rest))"
    by (simp only: bytes_of_sextets [OF lt(2,3)] byte_unat)
  finally show ?case
    by (simp add: "1.IH")
next
  case (2 a b)
  let ?x = "unat a" and ?y = "unat b"
  note lt = byte_less [of a] byte_less [of b]
  note s = sextets_of_bytes [OF lt lt(2)]
  have "base64_decode (base64 [a, b]) =
      Some [byte (?x div 4 * 4 + (?x mod 4 * 16 + ?y div 16) div 16),
            byte ((?x mod 4 * 16 + ?y div 16) mod 16 * 16 + (?y mod 16 * 4) div 4)]"
    unfolding base64.simps
    by (rule base64_decode_two_bytes)
      (rule sextet_b64char, rule s, rule sextet_b64char, rule s, rule sextet_b64char, rule s,
        rule bytes_of_sextets_padded)
  also have "\<dots> = Some [a, b]"
    by (simp only: bytes_of_sextets [OF lt(2) lt(2)] bytes_of_sextets_padded(3) [OF lt(2)] byte_unat)
  finally show ?case .
next
  case (3 a)
  let ?x = "unat a"
  note lt = byte_less [of a]
  note s = sextets_of_bytes [OF lt lt lt]
  have "base64_decode (base64 [a]) = Some [byte (?x div 4 * 4 + (?x mod 4 * 16) div 16)]"
    unfolding base64.simps
    by (rule base64_decode_one_byte)
      (rule sextet_b64char, rule s, rule sextet_b64char, rule s, rule bytes_of_sextets_padded)
  also have "\<dots> = Some [a]"
    by (simp only: bytes_of_sextets_padded byte_unat)
  finally show ?case .
next
  case 4
  show ?case by simp
qed

lemma base64_alphabet: "set (base64 bs) \<subseteq> insert 0x003D (b64char ` {..<64})"
proof (induction bs rule: base64.induct)
  case (1 a b c rest)
  note s = sextets_of_bytes [OF byte_less [of a] byte_less [of b] byte_less [of c]]
  have "b64char (unat a div 4) \<in> b64char ` {..<64}"
    "b64char (unat a mod 4 * 16 + unat b div 16) \<in> b64char ` {..<64}"
    "b64char (unat b mod 16 * 4 + unat c div 64) \<in> b64char ` {..<64}"
    "b64char (unat c mod 64) \<in> b64char ` {..<64}"
    using s by (simp_all only: imageI lessThan_iff)
  with "1.IH" show ?case by simp
next
  case (2 a b)
  note s = sextets_of_bytes [OF byte_less [of a] byte_less [of b] byte_less [of b]]
  have "b64char (unat a div 4) \<in> b64char ` {..<64}"
    "b64char (unat a mod 4 * 16 + unat b div 16) \<in> b64char ` {..<64}"
    "b64char (unat b mod 16 * 4) \<in> b64char ` {..<64}"
    using s by (simp_all only: imageI lessThan_iff)
  then show ?case by simp
next
  case (3 a)
  note s = sextets_of_bytes [OF byte_less [of a] byte_less [of a] byte_less [of a]]
  have "b64char (unat a div 4) \<in> b64char ` {..<64}"
    "b64char (unat a mod 4 * 16) \<in> b64char ` {..<64}"
    using s by (simp_all only: imageI lessThan_iff)
  then show ?case by simp
next
  case 4
  show ?case by simp
qed

lemma base64_no_comma: "0x002C \<notin> set (base64 bs)"
proof
  assume "0x002C \<in> set (base64 bs)"
  with base64_alphabet [of bs] have "0x002C \<in> b64char ` {..<64}"
    by auto
  then show False
    using b64char_not_comma by auto
qed

lemma base64_eq_Nil: "base64 bs = [] \<longleftrightarrow> bs = []"
  by (cases bs rule: base64.cases) simp_all

lemma js_split_at_separator:
  "sep \<notin> set xs \<Longrightarrow> js_split sep (xs @ sep # ys) = xs # js_split sep ys"
  by (induction xs) auto

lemma lazyDotsThenSemicolon_token:
  "\<forall>c \<in> set t. c \<noteq> 0x003B \<and> \<not> isLineTerminator c \<Longrightarrow>
   lazyDotsThenSemicolon (t @ 0x003B # rest) = Some t"
  by (induction t) simp_all

lemma bareMimeType_iff:
  "bareMimeType t \<longleftrightarrow> (\<forall>c \<in> set t. c \<noteq> 0x003B \<and> c \<noteq> 0x002C \<and> \<not> isLineTerminator c)"
  by (simp add: bareMimeType_def list_all_iff)

lemma js_data_prefix: "js ''data:'' = [0x0064, 0x0061, 0x0074, 0x0061, 0x003A]"
  by (simp add: js_def)

lemma js_base64_marker:
  "js '';base64,'' = 0x003B # [0x0062, 0x0061, 0x0073, 0x0065, 0x0036, 0x0034] @ [0x002C]"
  by (simp add: js_def)

lemma startsWith_image_nonempty: "startsWith t (js ''image/'') \<Longrightarrow> t \<noteq> []"
  by (auto simp: startsWith_def js_def)

lemma convert_readAsDataURL:
  assumes "bareMimeType (file_type f)" and "file_type f \<noteq> []" and "file_bytes f \<noteq> []"
  shows "convertDataUrlToGeminiPart (readAsDataURL f) =
     Inr (InlineDataPart \<lparr>data = base64 (file_bytes f), mimeType = file_type f\<rparr>)"
proof -
  let ?t = "file_type f" and ?p = "base64 (file_bytes f)"
  let ?header = "js ''data:'' @ ?t @ [0x003B, 0x0062, 0x0061, 0x0073, 0x0065, 0x0036, 0x0034]"
  from assms(1) have t: "\<forall>c \<in> set ?t. c \<noteq> 0x003B \<and> c \<noteq> 0x002C \<and> \<not> isLineTerminator c"
    by (simp add: bareMimeType_iff)
  have url: "readAsDataURL f = ?header @ 0x002C # ?p"
    by (simp add: readAsDataURL_def js_base64_marker)
  have "0x002C \<notin> set ?header"
    using t by (auto simp: js_data_prefix)
  then have "js_split 0x002C (readAsDataURL f) = ?header # js_split 0x002C ?p"
    unfolding url by (rule js_split_at_separator)
  also have "js_split 0x002C ?p = [?p]"
    by (rule js_split_no_separator) (rule base64_no_comma)
  finally have split: "js_split 0x002C (readAsDataURL f) = [?header, ?p]" .
  have "matchColonGroup ?header =
      (case lazyDotsThenSemicolon (?t @ 0x003B # [0x0062, 0x0061, 0x0073, 0x0065, 0x0036, 0x0034]) of
         Some g \<Rightarrow> Some g
       | None \<Rightarrow> matchColonGroup (?t @ [0x003B, 0x0062, 0x0061, 0x0073, 0x0065, 0x0036, 0x0034]))"
    by (simp add: js_data_prefix)
  also have "\<dots> = Some ?t"
    using t by (simp add: lazyDotsThenSemicolon_token)
  finally have mime: "dataUrlMimeType (readAsDataURL f) = Some ?t"
    by (simp add: dataUrlMimeType_def split)
  have payload: "dataUrlPayload (readAsDataURL f) = Some ?p"
    by (simp add: dataUrlPayload_def split js_index_def)
  from assms(2,3) show ?thesis
    by (simp add: convertDataUrlToGeminiPart_cases mime payload truthy_def base64_eq_Nil)
qed

lemma decodeDataUrl_readAsDataURL:
  assumes "bareMimeType (file_type f)"
  shows "decodeDataUrl (readAsDataURL f) = Some (file_type f, file_bytes f)"
proof -
  let ?t = "file_type f" and ?p = "base64 (file_bytes f)"
  from assms have t: "\<forall>c \<in> set ?t. c \<noteq> 0x003B"
    by (simp add: bareMimeType_iff)
  have starts: "startsWith (readAsDataURL f) (js ''data:'')"
    by (simp add: startsWith_def readAsDataURL_def js_data_prefix)
  have rest: "drop 5 (readAsDataURL f) = ?t @ js '';base64,'' @ ?p"
    by (simp add: readAsDataURL_def js_data_prefix)
  have mime: "takeWhile (\<lambda>c. c \<noteq> 0x003B) (?t @ js '';base64,'' @ ?p) = ?t"
    using t by (simp add: js_base64_marker)
  have tail: "dropWhile (\<lambda>c. c \<noteq> 0x003B) (?t @ js '';base64,'' @ ?p) = js '';base64,'' @ ?p"
    using t by (simp add: js_base64_marker)
  have marker: "startsWith (js '';base64,'' @ ?p) (js '';base64,'')"
    by (simp add: startsWith_def js_base64_marker)
  have payload: "drop 8 (js '';base64,'' @ ?p) = ?p"
    by (simp add: js_base64_marker)
  have "decodeDataUrl (readAsDataURL f) =
      map_option (Pair ?t) (base64_decode (drop 8 (js '';base64,'' @ ?p)))"
    by (simp add: decodeDataUrl_def starts rest mime tail marker Let_def del: drop_append)
  then show ?thesis
    by (simp only: payload base64_decode_base64 option.map)
qed

section \<open>The claims\<close>

text \<open>
  C1. If the data URL of either input lacks a MIME-type token or a non-empty base64
  payload after the first comma (a data URL with no comma among them), the promise of
  \<open>generateProductPlacementImage\<close> is rejected with the malformed-input error
  \<open>Invalid data URL\<close> (as the catch clause re-wraps it), and no request has been sent:
  the failure comes before any network call and is an error, not a degraded result.
\<close>

theorem malformed_input_fails_before_any_request:
  assumes "malformedDataUrl (base64Url characterImage) \<or> malformedDataUrl (base64Url productImage)"
  shows "outcome (generateProductPlacementImage generateContent ai characterImage productImage) =
           Rejected (JsError (js ''Failed to generate image: Invalid data URL'')) \<and>
         requests (generateProductPlacementImage generateContent ai characterImage productImage) = []"
proof -
  have msg: "catchClause (JsError Invalid_data_URL) =
      JsError (js ''Failed to generate image: Invalid data URL'')"
    by (simp add: catchClause_def Invalid_data_URL_def js_def)
  show ?thesis
  proof (cases "convertDataUrlToGeminiPart (base64Url characterImage)")
    case (Inl e)
    then have "e = JsError Invalid_data_URL" by (simp add: convert_Inl)
    with Inl msg show ?thesis by (simp add: generate_first_malformed)
  next
    case (Inr cp)
    then have "\<not> malformedDataUrl (base64Url characterImage)"
      using convert_malformed by fastforce
    with assms have "malformedDataUrl (base64Url productImage)" by simp
    then have "convertDataUrlToGeminiPart (base64Url productImage) = Inl (JsError Invalid_data_URL)"
      by (rule convert_malformed)
    with Inr msg show ?thesis by (simp add: generate_second_malformed)
  qed
qed

theorem malformed_input_fails_before_any_request_witness:
  "0x002C \<notin> set (base64Url commalessUpload) \<and>
   outcome (generateProductPlacementImage (\<lambda>ai req. NeverSettles) someClient
              commalessUpload productUpload) =
     Rejected (JsError (js ''Failed to generate image: Invalid data URL'')) \<and>
   requests (generateProductPlacementImage (\<lambda>ai req. NeverSettles) someClient
               commalessUpload productUpload) = []"
proof -
  have c: "0x002C \<notin> set (base64Url commalessUpload)"
    by (simp add: commalessUpload_def js_def)
  then have "malformedDataUrl (base64Url commalessUpload) \<or>
      malformedDataUrl (base64Url productUpload)"
    by (simp add: malformedDataUrl_def)
  from malformed_input_fails_before_any_request [OF this] c show ?thesis by simp
qed

text \<open>
  C2. For every well-formed pair of inputs the function sends exactly one request, and
  its parts are exactly three, in this order: the inline part of the character image,
  the inline part of the product image, and the fixed instruction text. This holds
  however the SDK answers.
\<close>

theorem request_has_character_product_instruction_in_order:
  assumes "\<not> malformedDataUrl (base64Url characterImage)"
    and "\<not> malformedDataUrl (base64Url productImage)"
  shows "\<exists>req. requests (generateProductPlacementImage generateContent ai characterImage productImage) = [req] \<and>
           contents_parts req =
             [InlineDataPart \<lparr>data = the (dataUrlPayload (base64Url characterImage)),
                              mimeType = the (dataUrlMimeType (base64Url characterImage))\<rparr>,
              InlineDataPart \<lparr>data = the (dataUrlPayload (base64Url productImage)),
                              mimeType = the (dataUrlMimeType (base64Url productImage))\<rparr>,
              TextPart instruction]"
proof -
  let ?cp = "InlineDataPart \<lparr>data = the (dataUrlPayload (base64Url characterImage)),
                              mimeType = the (dataUrlMimeType (base64Url characterImage))\<rparr>"
  let ?pp = "InlineDataPart \<lparr>data = the (dataUrlPayload (base64Url productImage)),
                              mimeType = the (dataUrlMimeType (base64Url productImage))\<rparr>"
  from assms have c: "convertDataUrlToGeminiPart (base64Url characterImage) = Inr ?cp"
    and p: "convertDataUrlToGeminiPart (base64Url productImage) = Inr ?pp"
    by (simp_all add: convertDataUrlToGeminiPart_cases malformedDataUrl_def)
  have "requests (generateProductPlacementImage generateContent ai characterImage productImage) =
      [buildRequest ?cp ?pp]"
    by (simp add: generateProductPlacementImage_def tryBlock_well_formed [OF c p]
        split: reply.splits completion.splits)
  moreover have "contents_parts (buildRequest ?cp ?pp) = [?cp, ?pp, TextPart instruction]"
    by (simp add: buildRequest_def)
  ultimately show ?thesis by blast
qed

theorem request_has_character_product_instruction_in_order_witness:
  "\<exists>req. requests (generateProductPlacementImage (\<lambda>ai req. NeverSettles) someClient
                    characterUpload productUpload) = [req] \<and>
         contents_parts req =
           [InlineDataPart \<lparr>data = js ''iVBORw0KGgo='', mimeType = js ''image/png''\<rparr>,
            InlineDataPart \<lparr>data = js ''/9j/4A=='', mimeType = js ''image/jpeg''\<rparr>,
            TextPart instruction]"
proof -
  have c: "\<not> malformedDataUrl (base64Url characterUpload)"
    by (simp add: malformedDataUrl_def dataUrlMimeType_def dataUrlPayload_def
        characterUpload_def js_def js_index_def truthy_def isLineTerminator_def)
  have p: "\<not> malformedDataUrl (base64Url productUpload)"
    by (simp add: malformedDataUrl_def dataUrlMimeType_def dataUrlPayload_def
        productUpload_def js_def js_index_def truthy_def isLineTerminator_def)
  have "the (dataUrlPayload (base64Url characterUpload)) = js ''iVBORw0KGgo=''"
    and "the (dataUrlMimeType (base64Url characterUpload)) = js ''image/png''"
    and "the (dataUrlPayload (base64Url productUpload)) = js ''/9j/4A==''"
    and "the (dataUrlMimeType (base64Url productUpload)) = js ''image/jpeg''"
    by (simp_all add: dataUrlMimeType_def dataUrlPayload_def characterUpload_def
        productUpload_def js_def js_index_def isLineTerminator_def)
  with request_has_character_product_instruction_in_order [OF c p] show ?thesis by simp
qed

text \<open>
  C6. When the environment has no \<open>API_KEY\<close>, evaluating the module throws
  \<open>API_KEY environment variable not set\<close>: no client is built and the module exports
  no function, so no request can be made at all.
\<close>

theorem missing_credential_refuses_to_initialise:
  assumes "env (js ''API_KEY'') = None"
  shows "initModule env = Inl (JsError (js ''API_KEY environment variable not set'')) \<and>
         geminiService env generateContent =
           Inl (JsError (js ''API_KEY environment variable not set''))"
  using assms by (simp add: initModule_def geminiService_def truthy_def API_KEY_unset_def)

theorem missing_credential_refuses_to_initialise_witness:
  "initModule Map.empty = Inl (JsError (js ''API_KEY environment variable not set'')) \<and>
   geminiService Map.empty (\<lambda>ai req. NeverSettles) =
     Inl (JsError (js ''API_KEY environment variable not set''))"
  using missing_credential_refuses_to_initialise [of Map.empty "\<lambda>ai req. NeverSettles"]
  by simp

text \<open>
  C3. When the SDK resolves with a response whose content parts (those of its first
  candidate) include an inline image part, one whose \<open>inlineData\<close> has a non-empty
  \<open>data\<close> string, the promise is fulfilled with exactly that string of the first such
  part, in the order of the parts: no part before it has inline data with a non-empty
  \<open>data\<close>, and whatever comes after it, further image parts included, is ignored.
\<close>

theorem first_inline_image_part_is_returned:
  assumes "convertDataUrlToGeminiPart (base64Url characterImage) = Inr cp"
    and "convertDataUrlToGeminiPart (base64Url productImage) = Inr pp"
    and "generateContent ai (buildRequest cp pp) = ResolvesWith r"
    and "responseParts r = before @ p # after"
    and "\<forall>q \<in> set before. \<forall>b'. inlineData q = Some b' \<longrightarrow>
           blob_data b' = None \<or> blob_data b' = Some []"
    and "inlineData p = Some b"
    and "blob_data b = Some d"
    and "d \<noteq> []"
  shows "outcome (generateProductPlacementImage generateContent ai characterImage productImage) =
           Fulfilled (Some d)"
proof -
  from assms(5) have none: "\<forall>q \<in> set before. \<not> carriesInlineImage q"
    by (fastforce simp: carriesInlineImage_raw)
  from assms(6-8) have here: "carriesInlineImage p" and d: "inlineDataOf p = Some d"
    by (simp_all add: carriesInlineImage_raw inlineDataOf_def)
  from assms(4) none here d have "scanParts (responseParts r) = Some d"
    by (simp add: scanParts_first)
  then have "afterResponse r = Returns (Some d)"
    by (simp add: afterResponse_def)
  then show ?thesis
    by (simp add: generate_resolved
        [where generateContent = generateContent and ai = ai, OF assms(1-3)])
qed

theorem first_inline_image_part_is_returned_witness:
  "inlineData (imagePart (js ''AAAA'')) =
     Some \<lparr>blob_data = Some (js ''AAAA''), blob_mimeType = Some (js ''image/png'')\<rparr> \<and>
   js ''AAAA'' \<noteq> [] \<and>
   outcome (generateProductPlacementImage
      (\<lambda>ai req. ResolvesWith (responseOf
         [textPart (js ''Here you go''), imagePart [], imagePart (js ''AAAA''),
          imagePart (js ''BBBB'')]
         (Some (js ''Here you go''))))
      someClient characterUpload productUpload) = Fulfilled (Some (js ''AAAA''))"
proof -
  let ?r = "responseOf
      [textPart (js ''Here you go''), imagePart [], imagePart (js ''AAAA''),
       imagePart (js ''BBBB'')]
      (Some (js ''Here you go''))"
  have split: "responseParts ?r =
      [textPart (js ''Here you go''), imagePart []] @ imagePart (js ''AAAA'') #
        [imagePart (js ''BBBB'')]"
    by (simp add: responseParts_responseOf)
  have before: "\<forall>q \<in> set [textPart (js ''Here you go''), imagePart []].
      \<forall>b'. inlineData q = Some b' \<longrightarrow> blob_data b' = None \<or> blob_data b' = Some []"
    by (auto simp: textPart_def imagePart_def)
  have here: "inlineData (imagePart (js ''AAAA'')) =
      Some \<lparr>blob_data = Some (js ''AAAA''), blob_mimeType = Some (js ''image/png'')\<rparr>"
    by (simp add: imagePart_def)
  have payload: "blob_data \<lparr>blob_data = Some (js ''AAAA''), blob_mimeType = Some (js ''image/png'')\<rparr> =
      Some (js ''AAAA'')"
    by simp
  have nonempty: "js ''AAAA'' \<noteq> []"
    by (simp add: js_def)
  from first_inline_image_part_is_returned
    [where generateContent = "\<lambda>ai req. ResolvesWith ?r" and ai = someClient,
      OF convert_characterUpload convert_productUpload refl split before here payload nonempty]
    here nonempty
  show ?thesis by simp
qed

text \<open>
  C4. When the SDK resolves with a response in which no part carries inline image data
  and whose top-level text, trimmed, is not empty, the promise is rejected with an
  \<open>Error\<close> whose message is \<open>Failed to generate image: Model response: \<close> followed by
  the trimmed text, so the message contains that text as a contiguous substring.
\<close>

theorem refusal_text_is_embedded_in_the_error:
  assumes "convertDataUrlToGeminiPart (base64Url characterImage) = Inr cp"
    and "convertDataUrlToGeminiPart (base64Url productImage) = Inr pp"
    and "generateContent ai (buildRequest cp pp) = ResolvesWith r"
    and "\<forall>q \<in> set (responseParts r). \<not> carriesInlineImage q"
    and "response_text r = Some t"
    and "trim t \<noteq> []"
  shows "\<exists>message.
           outcome (generateProductPlacementImage generateContent ai characterImage productImage) =
             Rejected (JsError message) \<and>
           message = js ''Failed to generate image: Model response: '' @ trim t \<and>
           sublist (trim t) message"
proof -
  from assms(4) have "scanParts (responseParts r) = None"
    by (rule scanParts_none)
  with assms(5,6) have "afterResponse r = Throws (JsError (js ''Model response: '' @ trim t))"
    by (simp add: afterResponse_def truthy_def)
  moreover have "js ''Failed to generate image: '' @ js ''Model response: '' @ trim t =
      js ''Failed to generate image: Model response: '' @ trim t"
    by (simp add: js_def)
  ultimately have "outcome (generateProductPlacementImage generateContent ai characterImage productImage) =
      Rejected (JsError (js ''Failed to generate image: Model response: '' @ trim t))"
    by (simp add: generate_resolved [where generateContent = generateContent and ai = ai, OF assms(1-3)] catchClause_def)
  moreover have "sublist (trim t) (js ''Failed to generate image: Model response: '' @ trim t)"
    using sublist_appendI [of "trim t" "js ''Failed to generate image: Model response: ''" "[]"]
    by simp
  ultimately show ?thesis by blast
qed

theorem refusal_text_is_embedded_in_the_error_witness:
  "trim (js '' Cannot comply '') = js ''Cannot comply'' \<and>
   (\<exists>message.
      outcome (generateProductPlacementImage
        (\<lambda>ai req. ResolvesWith (responseOf [textPart (js '' Cannot comply '')]
           (Some (js '' Cannot comply ''))))
        someClient characterUpload productUpload) = Rejected (JsError message) \<and>
      message = js ''Failed to generate image: Model response: Cannot comply'' \<and>
      sublist (js ''Cannot comply'') message)"
proof -
  let ?r = "responseOf [textPart (js '' Cannot comply '')] (Some (js '' Cannot comply ''))"
  have none: "\<forall>q \<in> set (responseParts ?r). \<not> carriesInlineImage q"
    by (simp add: responseParts_responseOf carriesInlineImage_def inlineDataOf_def
        textPart_def truthy_def)
  have top: "response_text ?r = Some (js '' Cannot comply '')"
    by (simp add: responseOf_def)
  have trimmed: "trim (js '' Cannot comply '') = js ''Cannot comply''"
    by (simp add: trim_def js_def isWhiteSpace_def isLineTerminator_def)
  then have nonempty: "trim (js '' Cannot comply '') \<noteq> []"
    by (simp add: js_def)
  have "js ''Failed to generate image: Model response: '' @ js ''Cannot comply'' =
      js ''Failed to generate image: Model response: Cannot comply''"
    by (simp add: js_def)
  with refusal_text_is_embedded_in_the_error
    [where generateContent = "\<lambda>ai req. ResolvesWith ?r" and ai = someClient,
      OF convert_characterUpload convert_productUpload refl none top nonempty] trimmed
  show ?thesis by simp
qed

text \<open>
  C5. When the SDK resolves with a response in which no part carries inline image data
  and whose top-level text is absent or empty once trimmed, the promise is fulfilled
  with \<open>null\<close>: nothing is thrown and nothing is logged.
\<close>

theorem empty_response_returns_null:
  assumes "convertDataUrlToGeminiPart (base64Url characterImage) = Inr cp"
    and "convertDataUrlToGeminiPart (base64Url productImage) = Inr pp"
    and "generateContent ai (buildRequest cp pp) = ResolvesWith r"
    and "\<forall>q \<in> set (responseParts r). \<not> carriesInlineImage q"
    and "response_text r = None \<or> (\<exists>t. response_text r = Some t \<and> trim t = [])"
  shows "outcome (generateProductPlacementImage generateContent ai characterImage productImage) =
           Fulfilled None \<and>
         console_error (generateProductPlacementImage generateContent ai characterImage productImage) = []"
proof -
  from assms(4) have "scanParts (responseParts r) = None"
    by (rule scanParts_none)
  with assms(5) have "afterResponse r = Returns None"
    by (auto simp: afterResponse_def truthy_def)
  then show ?thesis
    by (simp add: generate_resolved [where generateContent = generateContent and ai = ai, OF assms(1-3)])
qed

theorem empty_response_returns_null_witness:
  "trim (js ''  '') = [] \<and>
   outcome (generateProductPlacementImage
     (\<lambda>ai req. ResolvesWith (responseOf [] (Some (js ''  ''))))
     someClient characterUpload productUpload) = Fulfilled None \<and>
   console_error (generateProductPlacementImage
     (\<lambda>ai req. ResolvesWith (responseOf [] (Some (js ''  ''))))
     someClient characterUpload productUpload) = []"
proof -
  let ?r = "responseOf [] (Some (js ''  ''))"
  have none: "\<forall>q \<in> set (responseParts ?r). \<not> carriesInlineImage q"
    by (simp add: responseParts_responseOf)
  have trimmed: "trim (js ''  '') = []"
    by (simp add: trim_def js_def isWhiteSpace_def)
  then have top: "response_text ?r = None \<or> (\<exists>t. response_text ?r = Some t \<and> trim t = [])"
    by (simp add: responseOf_def)
  from empty_response_returns_null
    [where generateContent = "\<lambda>ai req. ResolvesWith ?r" and ai = someClient,
      OF convert_characterUpload convert_productUpload refl none top] trimmed
  show ?thesis by simp
qed

text \<open>
  C7. For every change event whose selected file is absent, or whose file's declared
  type does not start with \<open>image/\<close>, \<open>handleFileChange\<close> clears the preview and
  tells the owner \<open>null\<close>; it starts no reader and leaves the input alone. The handler
  is a total function of the state with no error result, as the source has no \<open>throw\<close>
  on this path: the cleared state is its normal result.
\<close>

theorem non_image_selection_clears_the_upload:
  assumes "selectedFile event = None \<or>
           (\<exists>f. selectedFile event = Some f \<and> \<not> startsWith (file_type f) (js ''image/''))"
  shows "imagePreview (handleFileChange u event) = None \<and>
         delivered (handleFileChange u event) = delivered u @ [None] \<and>
         reading (handleFileChange u event) = reading u \<and>
         fileInputRef (handleFileChange u event) = fileInputRef u"
  using assms by (auto simp: handleFileChange_def)

theorem non_image_selection_clears_the_upload_witness:
  "selectedFile \<lparr>target_files = Some [notesTxt]\<rparr> = Some notesTxt \<and>
   \<not> startsWith (file_type notesTxt) (js ''image/'') \<and>
   imagePreview (handleFileChange mountedUploader \<lparr>target_files = Some [notesTxt]\<rparr>) = None \<and>
   delivered (handleFileChange mountedUploader \<lparr>target_files = Some [notesTxt]\<rparr>) =
     [Some characterUpload, None] \<and>
   imagePreview (handleFileChange mountedUploader \<lparr>target_files = None\<rparr>) = None \<and>
   delivered (handleFileChange mountedUploader \<lparr>target_files = None\<rparr>) =
     [Some characterUpload, None]"
proof -
  have sel: "selectedFile \<lparr>target_files = Some [notesTxt]\<rparr> = Some notesTxt"
    by (simp add: selectedFile_def js_index_def)
  have ty: "\<not> startsWith (file_type notesTxt) (js ''image/'')"
    by (simp add: startsWith_def notesTxt_def js_def)
  from sel ty have a: "selectedFile \<lparr>target_files = Some [notesTxt]\<rparr> = None \<or>
      (\<exists>f. selectedFile \<lparr>target_files = Some [notesTxt]\<rparr> = Some f \<and>
           \<not> startsWith (file_type f) (js ''image/''))"
    by simp
  have b: "selectedFile \<lparr>target_files = None\<rparr> = None \<or>
      (\<exists>f. selectedFile \<lparr>target_files = None\<rparr> = Some f \<and>
           \<not> startsWith (file_type f) (js ''image/''))"
    by (simp add: selectedFile_def)
  have d: "delivered mountedUploader = [Some characterUpload]"
    by (simp add: mountedUploader_def)
  from non_image_selection_clears_the_upload [OF a, of mountedUploader]
    non_image_selection_clears_the_upload [OF b, of mountedUploader] sel ty d
  show ?thesis by simp
qed

text \<open>
  C8. In every state in which an image has been accepted (the preview is a non-empty
  string, so the remove button is shown) and the file input is mounted, \<open>handleClear\<close>
  sets the preview to \<open>null\<close>, tells the owner \<open>null\<close>, and sets the value of the file
  input to the empty string, which is what lets the browser report a later selection
  of the same file as a change. The rest of the uploader's state, the readers in
  flight, is unchanged.
\<close>

theorem clear_resets_preview_owner_and_input:
  assumes "truthy (imagePreview u)"
    and "fileInputRef u = Some el"
  shows "imagePreview (fst (handleClear u e)) = None \<and>
         delivered (fst (handleClear u e)) = delivered u @ [None] \<and>
         fileInputRef (fst (handleClear u e)) = Some (el\<lparr>input_value := []\<rparr>) \<and>
         reading (fst (handleClear u e)) = reading u"
  using assms by (simp add: handleClear_def)

theorem clear_resets_preview_owner_and_input_witness:
  "truthy (imagePreview mountedUploader) \<and>
   imagePreview (fst (handleClear mountedUploader
      \<lparr>propagationStopped = False, defaultPrevented = False\<rparr>)) = None \<and>
   delivered (fst (handleClear mountedUploader
      \<lparr>propagationStopped = False, defaultPrevented = False\<rparr>)) =
     [Some characterUpload, None] \<and>
   fileInputRef (fst (handleClear mountedUploader
      \<lparr>propagationStopped = False, defaultPrevented = False\<rparr>)) =
     Some \<lparr>input_value = []\<rparr> \<and>
   reading (fst (handleClear mountedUploader
      \<lparr>propagationStopped = False, defaultPrevented = False\<rparr>)) = []"
proof -
  have acc: "truthy (imagePreview mountedUploader)"
    by (simp add: mountedUploader_def characterUpload_def truthy_def js_def)
  have el: "fileInputRef mountedUploader = Some \<lparr>input_value = js ''character.png''\<rparr>"
    by (simp add: mountedUploader_def)
  have rest: "delivered mountedUploader = [Some characterUpload]" "reading mountedUploader = []"
    by (simp_all add: mountedUploader_def)
  from clear_resets_preview_owner_and_input [OF acc el] acc rest
  show ?thesis by simp
qed

text \<open>
  C9. For every file the uploader accepts (a selected file whose declared type starts
  with \<open>image/\<close>; the declared type is a bare \<open>type/subtype\<close>), \<open>handleFileChange\<close>
  starts a read of the file, and when the read ends with the file's data URL the
  preview and the value handed to the owner are that data URL. Decoding it (strip the
  header \<open>data:<mimeType>;base64,\<close>, base64-decode the payload) gives back the file's
  declared type and its bytes. The repository's own \<open>convertDataUrlToGeminiPart\<close>
  recovers the same type and the base64 payload whenever the file has at least one
  byte, and base64-decoding that payload gives the bytes.
\<close>

theorem uploaded_data_url_round_trips:
  assumes "selectedFile event = Some f"
    and "startsWith (file_type f) (js ''image/'')"
    and "bareMimeType (file_type f)"
  shows "f \<in> set (reading (handleFileChange u event)) \<and>
         imagePreview (onloadend (handleFileChange u event) f (readAsDataURL f)) =
           Some (readAsDataURL f) \<and>
         delivered (onloadend (handleFileChange u event) f (readAsDataURL f)) =
           delivered u @ [Some \<lparr>file_of = f, base64Url = readAsDataURL f\<rparr>] \<and>
         decodeDataUrl (readAsDataURL f) = Some (file_type f, file_bytes f) \<and>
         base64_decode (base64 (file_bytes f)) = Some (file_bytes f) \<and>
         (file_bytes f \<noteq> [] \<longrightarrow>
            convertDataUrlToGeminiPart (readAsDataURL f) =
              Inr (InlineDataPart \<lparr>data = base64 (file_bytes f), mimeType = file_type f\<rparr>))"
proof -
  from assms(1,2) have started: "handleFileChange u event = u\<lparr>reading := reading u @ [f]\<rparr>"
    by (simp add: handleFileChange_def)
  have "file_type f \<noteq> []"
    using assms(2) by (rule startsWith_image_nonempty)
  with assms(3) have "file_bytes f \<noteq> [] \<longrightarrow>
      convertDataUrlToGeminiPart (readAsDataURL f) =
        Inr (InlineDataPart \<lparr>data = base64 (file_bytes f), mimeType = file_type f\<rparr>)"
    by (simp add: convert_readAsDataURL)
  moreover have "decodeDataUrl (readAsDataURL f) = Some (file_type f, file_bytes f)"
    using assms(3) by (rule decodeDataUrl_readAsDataURL)
  ultimately show ?thesis
    by (simp add: started onloadend_def base64_decode_base64)
qed

theorem uploaded_data_url_round_trips_witness:
  "selectedFile \<lparr>target_files = Some [characterPng]\<rparr> = Some characterPng \<and>
   startsWith (file_type characterPng) (js ''image/'') \<and>
   bareMimeType (file_type characterPng) \<and>
   readAsDataURL characterPng = js ''data:image/png;base64,iVBORw0KGgo='' \<and>
   imagePreview (onloadend (handleFileChange mountedUploader \<lparr>target_files = Some [characterPng]\<rparr>)
      characterPng (readAsDataURL characterPng)) =
     Some (js ''data:image/png;base64,iVBORw0KGgo='') \<and>
   decodeDataUrl (js ''data:image/png;base64,iVBORw0KGgo='') =
     Some (js ''image/png'', [0x89, 0x50, 0x4E, 0x47, 0x0D, 0x0A, 0x1A, 0x0A]) \<and>
   convertDataUrlToGeminiPart (js ''data:image/png;base64,iVBORw0KGgo='') =
     Inr (InlineDataPart \<lparr>data = js ''iVBORw0KGgo='', mimeType = js ''image/png''\<rparr>)"
proof -
  have sel: "selectedFile \<lparr>target_files = Some [characterPng]\<rparr> = Some characterPng"
    by (simp add: selectedFile_def js_index_def)
  have img: "startsWith (file_type characterPng) (js ''image/'')"
    by (simp add: startsWith_def characterPng_def js_def)
  have bare: "bareMimeType (file_type characterPng)"
    by (simp add: bareMimeType_def characterPng_def js_def isLineTerminator_def)
  have payload: "base64 (file_bytes characterPng) = js ''iVBORw0KGgo=''"
    by (simp add: characterPng_def b64char_def b64code_def js_def)
  then have url: "readAsDataURL characterPng = js ''data:image/png;base64,iVBORw0KGgo=''"
    by (simp add: readAsDataURL_def characterPng_def js_def)
  have fields: "file_type characterPng = js ''image/png''"
    "file_bytes characterPng = [0x89, 0x50, 0x4E, 0x47, 0x0D, 0x0A, 0x1A, 0x0A]"
    by (simp_all add: characterPng_def)
  from uploaded_data_url_round_trips [OF sel img bare, of mountedUploader]
    sel img bare url payload fields
  show ?thesis by simp
qed

text \<open>
  C10, as the code has it. Every rejection of the promise passes through the catch
  clause, the errors the function raised itself included, and there are four ways to
  it: a malformed input gives \<open>Failed to generate image: Invalid data URL\<close>; a response
  with text and no image gives \<open>Failed to generate image: Model response: \<close> and the
  trimmed text; a call of the SDK rejected with an \<open>Error\<close> gives
  \<open>Failed to generate image: \<close> and that error's message; a call rejected with a value
  that is not an \<open>Error\<close> gives the fixed message
  \<open>An unknown error occurred during image generation.\<close>, without the prefix.
\<close>

theorem every_rejection_comes_from_the_catch_clause:
  assumes "outcome (generateProductPlacementImage generateContent ai characterImage productImage) =
             Rejected e"
  shows "((malformedDataUrl (base64Url characterImage) \<or> malformedDataUrl (base64Url productImage)) \<and>
            e = JsError (js ''Failed to generate image: '' @ js ''Invalid data URL'')) \<or>
         (\<exists>cp pp r t. generateContent ai (buildRequest cp pp) = ResolvesWith r \<and>
            response_text r = Some t \<and>
            e = JsError (js ''Failed to generate image: '' @ js ''Model response: '' @ trim t)) \<or>
         (\<exists>cp pp message. generateContent ai (buildRequest cp pp) = RejectsWith (JsError message) \<and>
            e = JsError (js ''Failed to generate image: '' @ message)) \<or>
         (\<exists>cp pp. generateContent ai (buildRequest cp pp) = RejectsWith OtherValue \<and>
            e = JsError (js ''An unknown error occurred during image generation.''))"
proof (cases "convertDataUrlToGeminiPart (base64Url characterImage)")
  case (Inl x)
  with assms convert_Inl [OF Inl] show ?thesis
    by (simp add: generate_first_malformed catchClause_def Invalid_data_URL_def)
next
  case c: (Inr cp)
  show ?thesis
  proof (cases "convertDataUrlToGeminiPart (base64Url productImage)")
    case (Inl x)
    with assms c convert_Inl [OF Inl] show ?thesis
      by (simp add: generate_second_malformed catchClause_def Invalid_data_URL_def)
  next
    case p: (Inr pp)
    show ?thesis
    proof (cases "generateContent ai (buildRequest cp pp)")
      case (ResolvesWith r)
      show ?thesis
      proof (cases "afterResponse r")
        case (Returns v)
        with assms show ?thesis
          by (simp add: generate_resolved
              [where generateContent = generateContent and ai = ai, OF c p ResolvesWith])
      next
        case (Throws x)
        from afterResponse_Throws [OF Throws] obtain t where
          t: "response_text r = Some t" "x = JsError (js ''Model response: '' @ trim t)"
          by blast
        from assms Throws t have
          "e = JsError (js ''Failed to generate image: '' @ js ''Model response: '' @ trim t)"
          by (simp add: generate_resolved
              [where generateContent = generateContent and ai = ai, OF c p ResolvesWith]
              catchClause_def)
        with ResolvesWith t(1) show ?thesis by blast
      next
        case Suspended
        then show ?thesis by (simp add: afterResponse_not_Suspended)
      qed
    next
      case (RejectsWith x)
      from assms have e: "e = catchClause x"
        by (simp add: generate_remote_rejects
            [where generateContent = generateContent and ai = ai, OF c p RejectsWith])
      show ?thesis
      proof (cases x)
        case (JsError message)
        with e have "e = JsError (js ''Failed to generate image: '' @ message)"
          by (simp add: catchClause_def)
        with RejectsWith JsError show ?thesis by blast
      next
        case OtherValue
        with e have "e = JsError (js ''An unknown error occurred during image generation.'')"
          by (simp add: catchClause_def)
        with RejectsWith OtherValue show ?thesis by blast
      qed
    next
      case NeverSettles
      with assms show ?thesis
        by (simp add: generateProductPlacementImage_def tryBlock_well_formed [OF c p])
    qed
  qed
qed

theorem every_rejection_comes_from_the_catch_clause_witness:
  "outcome (generateProductPlacementImage
      (\<lambda>ai req. RejectsWith (JsError (js ''quota exceeded''))) someClient
      characterUpload productUpload) =
     Rejected (JsError (js ''Failed to generate image: quota exceeded'')) \<and>
   (((malformedDataUrl (base64Url characterUpload) \<or> malformedDataUrl (base64Url productUpload)) \<and>
       JsError (js ''Failed to generate image: quota exceeded'') =
         JsError (js ''Failed to generate image: '' @ js ''Invalid data URL'')) \<or>
    (\<exists>cp pp r t.
       (\<lambda>ai req. RejectsWith (JsError (js ''quota exceeded''))) someClient (buildRequest cp pp) =
         ResolvesWith r \<and>
       response_text r = Some t \<and>
       JsError (js ''Failed to generate image: quota exceeded'') =
         JsError (js ''Failed to generate image: '' @ js ''Model response: '' @ trim t)) \<or>
    (\<exists>cp pp message.
       (\<lambda>ai req. RejectsWith (JsError (js ''quota exceeded''))) someClient (buildRequest cp pp) =
         RejectsWith (JsError message) \<and>
       JsError (js ''Failed to generate image: quota exceeded'') =
         JsError (js ''Failed to generate image: '' @ message)) \<or>
    (\<exists>cp pp.
       (\<lambda>ai req. RejectsWith (JsError (js ''quota exceeded''))) someClient (buildRequest cp pp) =
         RejectsWith OtherValue \<and>
       JsError (js ''Failed to generate image: quota exceeded'') =
         JsError (js ''An unknown error occurred during image generation.'')))"
proof -
  have "js ''Failed to generate image: '' @ js ''quota exceeded'' =
      js ''Failed to generate image: quota exceeded''"
    by (simp add: js_def)
  then have h: "outcome (generateProductPlacementImage
      (\<lambda>ai req. RejectsWith (JsError (js ''quota exceeded''))) someClient
      characterUpload productUpload) =
     Rejected (JsError (js ''Failed to generate image: quota exceeded''))"
    by (simp add: generate_remote_rejects
        [where generateContent = "\<lambda>ai req. RejectsWith (JsError (js ''quota exceeded''))"
           and ai = someClient, OF convert_characterUpload convert_productUpload refl]
        catchClause_def)
  from every_rejection_comes_from_the_catch_clause [OF h] h show ?thesis
    by (intro conjI)
qed

text \<open>
  C10, as the claim states it, fails where the SDK rejects with a value that is not an
  \<open>Error\<close>: the promise is rejected with the fixed message, which does not begin with
  \<open>Failed to generate image: \<close>.
\<close>

theorem rejection_without_the_prefix_counterexample:
  "outcome (generateProductPlacementImage (\<lambda>ai req. RejectsWith OtherValue) someClient
      characterUpload productUpload) =
     Rejected (JsError (js ''An unknown error occurred during image generation.'')) \<and>
   \<not> prefix (js ''Failed to generate image: '')
       (js ''An unknown error occurred during image generation.'')"
proof -
  have "outcome (generateProductPlacementImage (\<lambda>ai req. RejectsWith OtherValue) someClient
      characterUpload productUpload) =
     Rejected (JsError (js ''An unknown error occurred during image generation.''))"
    by (simp add: generate_remote_rejects
        [where generateContent = "\<lambda>ai req. RejectsWith OtherValue" and ai = someClient,
          OF convert_characterUpload convert_productUpload refl]
        catchClause_def)
  moreover have "\<not> prefix (js ''Failed to generate image: '')
      (js ''An unknown error occurred during image generation.'')"
    by (simp add: js_def)
  ultimately show ?thesis by simp
qed

end
